theory Spec2Isabelle
  imports Complex_Main "HOL-Library.Sublist"
begin

section \<open>KNTraP query scripts: a shallow embedding\<close>

text \<open>
  The scripts compute with Python floats (degrees). The embedding idealises them as
  \<^typ>\<open>real\<close>: comparisons, clamps and wrap-arounds are those of the source, rounding
  is not modelled. Exceptions are values of the datatype \<open>exn\<close>; a function that may
  raise returns \<open>exn + 'a\<close> with \<open>Inl\<close> for the raised exception.
\<close>

datatype exn =
    RuntimeError string
  | Exception string
  | KeyError string
  | AttributeError string
  | UnboundLocalError string
  | TypeError string
  | IndexError

subsection \<open>Bounding box: \<open>get_radec_maxmin\<close> (notes/KNTraP_download_ccdbyccd.py, lines 70-90)\<close>

text \<open>
  The two wrap-around statements of lines 83 and 84. Each adds or subtracts 360 once.
\<close>

definition wrap_below :: "real \<Rightarrow> real" where
  "wrap_below x = (if x < 0 then x + 360 else x)"

definition wrap_above :: "real \<Rightarrow> real" where
  "wrap_above x = (if x > 360 then x - 360 else x)"

text \<open>Lines 72-75: the Dec bounds after the two one-sided clamps.\<close>

definition dec_min_of :: "real \<Rightarrow> real \<Rightarrow> real" where
  "dec_min_of DECcentre search_radius_deg =
     (let dec_min = DECcentre - search_radius_deg
      in if dec_min < - 90 then - 90 else dec_min)"

definition dec_max_of :: "real \<Rightarrow> real \<Rightarrow> real" where
  "dec_max_of DECcentre search_radius_deg =
     (let dec_max = DECcentre + search_radius_deg
      in if dec_max > 90 then 90 else dec_max)"

text \<open>Line 80: the smaller of the two cosines of the Dec bounds.\<close>

definition costerm_of :: "real \<Rightarrow> real \<Rightarrow> real" where
  "costerm_of dec_min dec_max = min (cos (dec_min * pi / 180)) (cos (dec_max * pi / 180))"

text \<open>The function returns the tuple \<open>(ra_min, ra_max, dec_min, dec_max)\<close>.\<close>

definition get_radec_maxmin :: "real \<Rightarrow> real \<Rightarrow> real \<Rightarrow> real \<times> real \<times> real \<times> real" where
  "get_radec_maxmin RAcentre DECcentre search_radius_deg =
     (let dec_min = dec_min_of DECcentre search_radius_deg;
          dec_max = dec_max_of DECcentre search_radius_deg
      in if dec_min = - 90 \<or> dec_max = 90 then (0, 360, dec_min, dec_max)
         else
           (let costerm = costerm_of dec_min dec_max;
                ra_min = RAcentre - search_radius_deg * 1 / costerm;
                ra_max = RAcentre + search_radius_deg * 1 / costerm
            in (wrap_below ra_min, wrap_above ra_max, dec_min, dec_max)))"

definition ra_min_of :: "real \<times> real \<times> real \<times> real \<Rightarrow> real" where
  "ra_min_of b = fst b"

definition ra_max_of :: "real \<times> real \<times> real \<times> real \<Rightarrow> real" where
  "ra_max_of b = fst (snd b)"

definition box_dec_min :: "real \<times> real \<times> real \<times> real \<Rightarrow> real" where
  "box_dec_min b = fst (snd (snd b))"

definition box_dec_max :: "real \<times> real \<times> real \<times> real \<Rightarrow> real" where
  "box_dec_max b = snd (snd (snd b))"

text \<open>The two-sided clamp to \<open>[-90, 90]\<close>, used to state the Dec-bound property.\<close>

definition clamp90 :: "real \<Rightarrow> real" where
  "clamp90 x = max (- 90) (min 90 x)"

subsection \<open>The archive search request (notes/KNTraP_download_ccdbyccd.py, lines 160-183, 244-259)\<close>

text \<open>
  An entry of the \<open>search\<close> list of the request: a field with one value, or a field with
  a numeric or a textual range.
\<close>

datatype constraint =
    Exact string string
  | RangeNum string real real
  | RangeStr string string string

definition jj_base_search :: "constraint list" where
  "jj_base_search =
     [Exact ''instrument'' ''decam'',
      Exact ''telescope'' ''ct4m'',
      Exact ''obs_type'' ''object'',
      Exact ''proc_type'' ''stacked'']"

text \<open>
  Lines 244-259 for one CCD: the box is computed, an inverted RA range raises
  \<open>RuntimeError\<close> before any request is built, otherwise the search list that is posted
  to the archive is returned.
\<close>

definition archive_search :: "string \<Rightarrow> real \<Rightarrow> real \<Rightarrow> real \<Rightarrow> exn + constraint list" where
  "archive_search caldat RAcentre DECcentre search_radius_deg =
     (case get_radec_maxmin RAcentre DECcentre search_radius_deg of
        (ra_min, ra_max, dec_min, dec_max) \<Rightarrow>
          if ra_min > ra_max then Inl (RuntimeError ''This needs to be fixed!!'')
          else Inr (jj_base_search @
                    [RangeNum ''ra_center'' ra_min ra_max,
                     RangeNum ''dec_center'' dec_min dec_max,
                     RangeStr ''caldat'' caldat caldat]))"

subsection \<open>Tables returned by the catalogue service\<close>

text \<open>
  A float cell of a table: Python floats include not-a-number, for which every
  comparison is false.
\<close>

datatype pyfloat = NaN | Fin real

definition isnan :: "pyfloat \<Rightarrow> bool" where
  "isnan v = (case v of NaN \<Rightarrow> True | Fin x \<Rightarrow> False)"

definition fl_less :: "pyfloat \<Rightarrow> real \<Rightarrow> bool" where
  "fl_less v b = (case v of NaN \<Rightarrow> False | Fin x \<Rightarrow> x < b)"

definition fl_ge :: "pyfloat \<Rightarrow> real \<Rightarrow> bool" where
  "fl_ge v b = (case v of NaN \<Rightarrow> False | Fin x \<Rightarrow> x \<ge> b)"

text \<open>
  An astropy table: its column names in order and its rows. A row gives the value under
  each column name; whether a column exists is decided by \<open>colnames\<close>, as in astropy.
\<close>

type_synonym row = "string \<Rightarrow> pyfloat"

record table =
  colnames :: "string list"
  rows :: "row list"

text \<open>
  The \<open>TableList\<close> returned by \<open>Vizier.query_region\<close>: the tables found, keyed by
  catalogue identifier. It is empty when no source was found.
\<close>

type_synonym tablelist = "(string \<times> table) list"

text \<open>
  \<open>Table.rename_column\<close> of astropy: \<open>KeyError\<close> when the column does not exist or
  the new name is taken; otherwise the column keeps its place and its values.
\<close>

definition rename_key :: "string \<Rightarrow> string \<Rightarrow> row \<Rightarrow> row" where
  "rename_key name new_name r = (\<lambda>n. if n = new_name then r name else r n)"

definition rename_column :: "table \<Rightarrow> string \<Rightarrow> string \<Rightarrow> exn + table" where
  "rename_column t name new_name =
     (if name \<notin> set (colnames t) then Inl (KeyError name)
      else if new_name \<in> set (colnames t) then Inl (KeyError new_name)
      else Inr \<lparr>colnames = map (\<lambda>c. if c = name then new_name else c) (colnames t),
                rows = map (rename_key name new_name) (rows t)\<rparr>)"


subsection \<open>\<open>PhotoCatalog\<close> (query_catalog_pipe.py, lines 13-121)\<close>


record photocatalog =
  field_ra :: real
  field_dec :: real
  boxsize :: real
  catalog :: string
  filter_band :: string
  catID :: "string option"



text \<open>Lines 68-110: the columns requested from the service.\<close>

definition columns_select :: "string \<Rightarrow> string \<Rightarrow> exn + string list" where
  "columns_select cid fil =
     (if cid = ''I/345/gaia2'' then
        Inr [''Source'', ''RA_ICRS'', ''e_RA_ICRS'', ''DE_ICRS'', ''e_DE_ICRS'', ''Gmag'', ''e_Gmag'']
      else if cid = ''II/349/ps1'' then
        Inr ([''objID'', ''RAJ2000'', ''DEJ2000''] @
             (if fil = ''all''
              then [''gmag'', ''e_gmag'', ''rmag'', ''e_rmag'', ''imag'', ''e_imag'',
                    ''zmag'', ''e_zmag'', ''ymag'', ''e_ymag'']
              else [fil @ ''mag'', ''e_'' @ fil @ ''mag'']))
      else if cid = ''II/358/smss'' then
        Inr ([''ObjectId'', ''RAICRS'', ''DEICRS''] @
             (if fil = ''all''
              then [''uPSF'', ''e_uPSF'', ''vPSF'', ''e_vPSF'', ''gPSF'', ''e_gPSF'',
                    ''rPSF'', ''e_rPSF'', ''iPSF'', ''e_iPSF'', ''zPSF'', ''e_zPSF'']
              else [fil @ ''PSF'', ''e_'' @ fil @ ''PSF'']))
      else if cid = ''II/336/apass9'' then
        Inr ([''RAJ2000'', ''DEJ2000''] @
             (if fil = ''all''
              then [''Vmag'', ''e_Vmag'', ''Bmag'', ''e_Bmag'',
                    [CHR ''g'', CHR 0x27] @ ''mag'', ''e_'' @ [CHR ''g'', CHR 0x27] @ ''mag'',
                    [CHR ''r'', CHR 0x27] @ ''mag'', ''e_'' @ [CHR ''r'', CHR 0x27] @ ''mag'',
                    [CHR ''i'', CHR 0x27] @ ''mag'', ''e_'' @ [CHR ''i'', CHR 0x27] @ ''mag'']
              else [fil @ ''mag'', ''e_'' @ fil @ ''mag'']))
      else Inl (UnboundLocalError ''columns_select''))"

text \<open>
  Lines 57-121. \<open>t_result\<close> is what the service answers to this call. Reading
  \<open>self.catID\<close> raises \<open>AttributeError\<close> when the constructor did not set it.
\<close>

definition PhotoCatalog_query :: "photocatalog \<Rightarrow> tablelist \<Rightarrow> exn + table option" where
  "PhotoCatalog_query self t_result =
     (case catID self of
        None \<Rightarrow> Inl (AttributeError ''catID'')
      | Some cid \<Rightarrow>
          (case columns_select cid (filter_band self) of
             Inl e \<Rightarrow> Inl e
           | Inr cols \<Rightarrow>
               if length t_result = 0 then Inr None
               else (case map_of t_result cid of
                       None \<Rightarrow> Inl (KeyError cid)
                     | Some t \<Rightarrow> Inr (Some t))))"

subsection \<open>\<open>GaiaAstrometry\<close> (query_catalog_pipe.py, lines 124-169)\<close>

record gaiaastrometry =
  gaia_field_ra :: real
  gaia_field_dec :: real
  gaia_boxsize :: real
  gaia_catID :: string

definition GaiaAstrometry_init :: "real \<times> real \<Rightarrow> real \<Rightarrow> gaiaastrometry" where
  "GaiaAstrometry_init field_center field_size =
     \<lparr>gaia_field_ra = fst field_center, gaia_field_dec = snd field_center,
      gaia_boxsize = field_size, gaia_catID = ''I/345/gaia2''\<rparr>"

text \<open>
  Lines 146-169. The test of line 166 indexes the \<open>TableList\<close> by the catalogue
  identifier before taking the length, which raises \<open>KeyError\<close> when the list has no
  such table.
\<close>

definition query_gaia_astrom :: "gaiaastrometry \<Rightarrow> tablelist \<Rightarrow> exn + table option" where
  "query_gaia_astrom self t_result =
     (case map_of t_result (gaia_catID self) of
        None \<Rightarrow> Inl (KeyError (gaia_catID self))
      | Some t \<Rightarrow> if length (rows t) = 0 then Inr None else Inr (Some t))"

subsection \<open>The photometric driver (query_catalog_pipe.py, lines 234-285)\<close>


text \<open>
  Lines 247-254: the query, and one more query when the first one returned \<open>None\<close>.
  The second component counts the calls of \<open>cat.query()\<close>; the result \<open>None\<close> is the
  \<open>continue\<close> of line 254.
\<close>

definition query_with_retry ::
  "photocatalog \<Rightarrow> tablelist \<Rightarrow> tablelist \<Rightarrow> exn + (table option \<times> nat)" where
  "query_with_retry cat first_answer second_answer =
     (case PhotoCatalog_query cat first_answer of
        Inl e \<Rightarrow> Inl e
      | Inr (Some t_cat) \<Rightarrow> Inr (Some t_cat, 1)
      | Inr None \<Rightarrow>
          (case PhotoCatalog_query cat second_answer of
             Inl e \<Rightarrow> Inl e
           | Inr t_cat \<Rightarrow> Inr (t_cat, 2)))"







text \<open>Lines 269-273: the indices of the not-a-number magnitudes, and their removal.\<close>

definition nan_index :: "pyfloat list \<Rightarrow> nat list" where
  "nan_index mags = filter (\<lambda>i. isnan (mags ! i)) [0..<length mags]"

definition remove_rows :: "'a list \<Rightarrow> nat list \<Rightarrow> 'a list" where
  "remove_rows xs idx = map fst (filter (\<lambda>p. snd p \<notin> set idx) (zip xs [0..<length xs]))"

text \<open>Line 280: selection of the rows by a list of booleans.\<close>

definition select_rows :: "'a list \<Rightarrow> bool list \<Rightarrow> 'a list" where
  "select_rows xs keep = map fst (filter snd (zip xs keep))"

text \<open>
  A line of the output file: the commented header with the first letter of the filter,
  or the four values of a row (their formatting as text is not modelled).
\<close>

datatype outline = Header string | Data pyfloat pyfloat pyfloat pyfloat

text \<open>
  Lines 172-197. A row is read under \<open>ra\<close>, \<open>dec\<close>, \<open>mag\<close> and \<open>e_mag\<close>; a missing
  column raises \<open>KeyError\<close> at the first row.
\<close>

definition write_row :: "string list \<Rightarrow> row \<Rightarrow> exn + outline" where
  "write_row cols l =
     (if ''ra'' \<notin> set cols then Inl (KeyError ''ra'')
      else if ''dec'' \<notin> set cols then Inl (KeyError ''dec'')
      else if ''mag'' \<notin> set cols then Inl (KeyError ''mag'')
      else if ''e_mag'' \<notin> set cols then Inl (KeyError ''e_mag'')
      else Inr (Data (l ''ra'') (l ''dec'') (l ''mag'') (l ''e_mag'')))"

fun write_rows :: "string list \<Rightarrow> row list \<Rightarrow> exn + outline list" where
  "write_rows cols [] = Inr []"
| "write_rows cols (l # ls) =
     (case write_row cols l of
        Inl e \<Rightarrow> Inl e
      | Inr x \<Rightarrow> (case write_rows cols ls of Inl e \<Rightarrow> Inl e | Inr xs \<Rightarrow> Inr (x # xs)))"

definition write_file :: "table \<Rightarrow> string \<Rightarrow> exn + outline list" where
  "write_file t filt =
     (case write_rows (colnames t) (rows t) of
        Inl e \<Rightarrow> Inl e
      | Inr ls \<Rightarrow> Inr (Header (take 1 filt) # ls))"

text \<open>
  Lines 266-282: the magnitudes are read, the rows with a not-a-number magnitude are
  removed by index, a warning is printed when a remaining magnitude is below the
  threshold, the rows with magnitude below 30 are kept, and the file is written. The
  result is the content of the file and whether the warning was printed.
\<close>

definition filter_and_write :: "table \<Rightarrow> string \<Rightarrow> real \<Rightarrow> exn + (outline list \<times> bool)" where
  "filter_and_write t_cat fil bright_thresh =
     (if ''mag'' \<notin> set (colnames t_cat) then Inl (KeyError ''mag'')
      else
        (let mags = map (\<lambda>l. l ''mag'') (rows t_cat);
             idx = nan_index mags;
             mags' = remove_rows mags idx;
             rows1 = remove_rows (rows t_cat) idx;
             bright = (filter (\<lambda>m. fl_less m bright_thresh) mags' \<noteq> []);
             rows2 = select_rows rows1 (map (\<lambda>l. fl_less (l ''mag'') 30) rows1)
         in case write_file \<lparr>colnames = colnames t_cat, rows = rows2\<rparr> (take 1 fil) of
              Inl e \<Rightarrow> Inl e
            | Inr ls \<Rightarrow> Inr (ls, bright)))"

subsection \<open>Authenticated download (notes/KNTraP_download_ccdbyccd.py, lines 292-312)\<close>

text \<open>
  The body of a response as \<open>r.json()\<close> gives it: a string or an object with named
  members. \<open>py_str\<close> is the text an f-string inserts for a value; the text of an object
  is not modelled.
\<close>

datatype json = JString string | JObject "(string \<times> json) list"

record response =
  status_code :: int
  json_body :: json
  content :: string

definition subscript :: "json \<Rightarrow> string \<Rightarrow> exn + json" where
  "subscript v k =
     (case v of
        JString s \<Rightarrow> Inl (TypeError ''string indices must be integers'')
      | JObject members \<Rightarrow>
          (case map_of members k of None \<Rightarrow> Inl (KeyError k) | Some x \<Rightarrow> Inr x))"

definition py_str :: "json \<Rightarrow> string" where
  "py_str v = (case v of JString s \<Rightarrow> s | JObject members \<Rightarrow> ''{...}'')"

text \<open>What the block does to the outside: the two requests and the file it writes.\<close>

datatype effect = PostToken | GetFile json | WriteFile string string

text \<open>
  Line 309: the message of the download failure. \<open>codes\<close> stands for the table
  \<open>requests.status_codes._codes\<close>, giving the first name of a status code.
\<close>

definition file_error :: "(int \<Rightarrow> string option) \<Rightarrow> response \<Rightarrow> exn" where
  "file_error codes r2 =
     (case codes (status_code r2) of
        None \<Rightarrow> KeyError ''status_code''
      | Some name \<Rightarrow>
          (case subscript (json_body r2) ''message'' of
             Inl e \<Rightarrow> e
           | Inr m \<Rightarrow> Exception (''Error getting file ('' @ name @ ''). '' @ py_str m)))"

text \<open>
  Line 312: the \<open>else\<close> branch of the token test reads the local variable \<open>token\<close>,
  which is assigned only in the other branch (line 301). \<open>None\<close> is the unassigned
  variable; \<open>Some\<close> is the value left by an earlier file of the same run.
\<close>

definition authorization_error :: "json option \<Rightarrow> exn" where
  "authorization_error token =
     (case token of
        None \<Rightarrow> UnboundLocalError ''token''
      | Some tok \<Rightarrow>
          (case subscript tok ''detail'' of
             Inl e \<Rightarrow> e
           | Inr d \<Rightarrow> Exception (''Could got get authorization: '' @ py_str d)))"

text \<open>
  Lines 294-312 for one file. \<open>r\<close> answers the token request and \<open>r2\<close> the file request
  (when it is made). The result is the effects in order, the variable \<open>token\<close>
  afterwards, and the exception raised, if any.
\<close>

definition download_file ::
  "(int \<Rightarrow> string option) \<Rightarrow> json option \<Rightarrow> response \<Rightarrow> response \<Rightarrow> string
     \<Rightarrow> effect list \<times> json option \<times> exn option" where
  "download_file codes token r r2 out_path =
     (if status_code r = 200 then
        (let token' = json_body r in
         if status_code r2 = 200
         then ([PostToken, GetFile token', WriteFile out_path (content r2)], Some token', None)
         else ([PostToken, GetFile token'], Some token', Some (file_error codes r2)))
      else ([PostToken], token, Some (authorization_error token)))"

subsection \<open>The target loops (query_ls_datalab_kntrap.py and query_milliquasar.py)\<close>

record target =
  objectName :: string
  target_ra :: real
  target_dec :: real

text \<open>The output file names of lines 48 and 50, with \<open>radius_deg = 1.2\<close>.\<close>

definition ls_outfile :: "string \<Rightarrow> string" where
  "ls_outfile name = ''ls/'' @ name @ ''_ls_query_rad1.2.csv''"

definition milliquas_outfile :: "string \<Rightarrow> string" where
  "milliquas_outfile name = ''milliquas/'' @ name @ ''_milliquas_query_rad1.2.csv''"

text \<open>
  The loop of both scripts. \<open>query\<close> tells whether the query of a target raises (the
  exception then ends the run before its file is written). The result lists, in order,
  the object names queried with the files written, and the exception that ended the run,
  if any. \<open>done_names\<close> is the list \<open>done\<close>.
\<close>

fun run_targets ::
  "(target \<Rightarrow> exn option) \<Rightarrow> (string \<Rightarrow> string) \<Rightarrow> target list \<Rightarrow> string list
     \<Rightarrow> (string \<times> string) list \<times> exn option" where
  "run_targets query outfile [] done_names = ([], None)"
| "run_targets query outfile (t_field # rest) done_names =
     (if objectName t_field \<in> set done_names then run_targets query outfile rest done_names
      else (case query t_field of
              Some e \<Rightarrow> ([], Some e)
            | None \<Rightarrow>
                (case run_targets query outfile rest (done_names @ [objectName t_field]) of
                   (written, r) \<Rightarrow>
                     ((objectName t_field, outfile (objectName t_field)) # written, r))))"

definition ls_main :: "(target \<Rightarrow> exn option) \<Rightarrow> target list \<Rightarrow> (string \<times> string) list \<times> exn option" where
  "ls_main query t = run_targets query ls_outfile t []"

definition milliquas_main :: "(target \<Rightarrow> exn option) \<Rightarrow> target list \<Rightarrow> (string \<times> string) list \<times> exn option" where
  "milliquas_main query t = run_targets query milliquas_outfile t []"

text \<open>The first occurrence of each element of a list, in order.\<close>

fun first_occurrences :: "'a list \<Rightarrow> 'a list" where
  "first_occurrences [] = []"
| "first_occurrences (x # xs) = x # filter (\<lambda>y. y \<noteq> x) (first_occurrences xs)"

subsection \<open>Inputs used in the examples\<close>

definition row_of :: "real \<Rightarrow> real \<Rightarrow> pyfloat \<Rightarrow> real \<Rightarrow> row" where
  "row_of a d m e =
     (\<lambda>n. if n = ''ra'' then Fin a else if n = ''dec'' then Fin d
           else if n = ''mag'' then m else if n = ''e_mag'' then Fin e else NaN)"




section \<open>Properties of the bounding box\<close>

lemma box_dec_min_eq:
  "box_dec_min (get_radec_maxmin RAcentre DECcentre r) = dec_min_of DECcentre r"
  by (simp add: get_radec_maxmin_def box_dec_min_def Let_def)

lemma box_dec_max_eq:
  "box_dec_max (get_radec_maxmin RAcentre DECcentre r) = dec_max_of DECcentre r"
  by (simp add: get_radec_maxmin_def box_dec_max_def Let_def)

text \<open>
  Claim C3. When \<open>DECcentre - r < -90\<close> or \<open>DECcentre + r > 90\<close>, the returned RA bounds are
  exactly 0 and 360.
\<close>

theorem polar_box_full_ra:
  assumes "DECcentre - r < - 90 \<or> DECcentre + r > 90"
  shows "ra_min_of (get_radec_maxmin RAcentre DECcentre r) = 0
       \<and> ra_max_of (get_radec_maxmin RAcentre DECcentre r) = 360"
proof -
  from assms have "dec_min_of DECcentre r = - 90 \<or> dec_max_of DECcentre r = 90"
    by (auto simp: dec_min_of_def dec_max_of_def Let_def)
  then show ?thesis
    by (auto simp: get_radec_maxmin_def ra_min_of_def ra_max_of_def Let_def)
qed

theorem polar_box_full_ra_witness:
  "((- 17999 / 200 :: real) - 1 / 100 < - 90 \<or> (- 17999 / 200 :: real) + 1 / 100 > 90)
   \<and> ra_min_of (get_radec_maxmin 10 (- 17999 / 200) (1 / 100)) = 0
   \<and> ra_max_of (get_radec_maxmin 10 (- 17999 / 200) (1 / 100)) = 360"
proof -
  have h: "(- 17999 / 200 :: real) - 1 / 100 < - 90 \<or> (- 17999 / 200 :: real) + 1 / 100 > 90"
    by simp
  show ?thesis
    using h polar_box_full_ra [OF h, of 10] by simp
qed

subsection \<open>Cosines at the inputs used below\<close>

lemma costerm_nonpolar:
  "costerm_of (- d) d = cos (d * pi / 180)"
  by (simp add: costerm_of_def)

lemma costerm_60: "costerm_of (- 60) 60 = 1 / 2"
proof -
  have "(60::real) * pi / 180 = pi / 3" by simp
  then show ?thesis using cos_60 by (simp add: costerm_of_def)
qed

lemma dec_bounds_sym_60: "dec_min_of 0 60 = - 60" "dec_max_of 0 60 = 60"
  by (simp_all add: dec_min_of_def dec_max_of_def)

lemma box_180_0_60: "get_radec_maxmin 180 0 60 = (60, 300, - 60, 60)"
  by (simp add: get_radec_maxmin_def dec_bounds_sym_60 costerm_60 wrap_below_def wrap_above_def)

lemma box_0_0_60: "get_radec_maxmin 0 0 60 = (240, 120, - 60, 60)"
  by (simp add: get_radec_maxmin_def dec_bounds_sym_60 costerm_60 wrap_below_def wrap_above_def)

lemma costerm_small_bounds:
  "1 / 2 \<le> costerm_of (- (1 / 100)) (1 / 100)" "costerm_of (- (1 / 100)) (1 / 100) \<le> 1"
proof -
  have c: "costerm_of (- (1 / 100)) (1 / 100) = cos (pi / 18000)"
    by (simp add: costerm_of_def)
  have "cos (pi / 3) \<le> cos (pi / 18000)"
    by (rule cos_monotone_0_pi_le) (simp_all)
  then show "1 / 2 \<le> costerm_of (- (1 / 100)) (1 / 100)" by (simp add: c cos_60)
  show "costerm_of (- (1 / 100)) (1 / 100) \<le> 1" by (simp add: c)
qed

lemma costerm_89_bounds:
  "0 < costerm_of (- 89) 89" "costerm_of (- 89) 89 < 1 / 45"
proof -
  have c: "costerm_of (- 89) 89 = cos (89 * pi / 180)"
    by (simp add: costerm_of_def)
  have s: "cos (89 * pi / 180) = sin (pi / 180)"
  proof -
    have "pi / 2 - 89 * pi / 180 = pi / 180" by simp
    then show ?thesis using cos_sin_eq [of "89 * pi / 180"] by simp
  qed
  have "sin (pi / 180) \<le> pi / 180" by (rule sin_x_le_x) simp
  also have "\<dots> < 4 / 180" using pi_less_4 by simp
  finally have up: "sin (pi / 180) < 1 / 45" by simp
  have "0 < sin (pi / 180)" by (rule sin_gt_zero) (use pi_gt_zero in simp_all)
  then show "0 < costerm_of (- 89) 89" by (simp add: c s)
  show "costerm_of (- 89) 89 < 1 / 45" using up by (simp add: c s)
qed

subsection \<open>The two branches of the box\<close>

lemma nonpolar_dec_bounds:
  assumes "DECcentre - r > - 90" "DECcentre + r < 90"
  shows "dec_min_of DECcentre r = DECcentre - r" "dec_max_of DECcentre r = DECcentre + r"
  using assms by (simp_all add: dec_min_of_def dec_max_of_def)

lemma nonpolar_box:
  assumes "DECcentre - r > - 90" "DECcentre + r < 90"
  shows "get_radec_maxmin RAcentre DECcentre r =
           (wrap_below (RAcentre - r / costerm_of (DECcentre - r) (DECcentre + r)),
            wrap_above (RAcentre + r / costerm_of (DECcentre - r) (DECcentre + r)),
            DECcentre - r, DECcentre + r)"
  using assms by (simp add: get_radec_maxmin_def nonpolar_dec_bounds Let_def)

lemma polar_box:
  assumes "DECcentre - r \<le> - 90 \<or> 90 \<le> DECcentre + r"
  shows "get_radec_maxmin RAcentre DECcentre r =
           (0, 360, dec_min_of DECcentre r, dec_max_of DECcentre r)"
proof -
  from assms have "dec_min_of DECcentre r = - 90 \<or> dec_max_of DECcentre r = 90"
    by (auto simp: dec_min_of_def dec_max_of_def Let_def)
  then show ?thesis
    by (auto simp: get_radec_maxmin_def Let_def)
qed

lemma cos_deg_pos:
  assumes "- 90 < d" "d < 90"
  shows "0 < cos (d * pi / 180)"
proof -
  have "- 90 * pi < d * pi" "d * pi < 90 * pi"
    using assms pi_gt_zero by (simp_all only: mult_strict_right_mono)
  then have "- (pi / 2) < d * pi / 180" "d * pi / 180 < pi / 2"
    by simp_all
  then show ?thesis by (rule cos_gt_zero_pi)
qed

lemma costerm_pos:
  assumes "- 90 < a" "a < 90" "- 90 < b" "b < 90"
  shows "0 < costerm_of a b"
  using assms by (simp add: costerm_of_def cos_deg_pos)

lemma archive_search_inverted:
  assumes "ra_min_of (get_radec_maxmin RAcentre DECcentre r) > ra_max_of (get_radec_maxmin RAcentre DECcentre r)"
  shows "archive_search caldat RAcentre DECcentre r = Inl (RuntimeError ''This needs to be fixed!!'')"
  using assms
  by (cases "get_radec_maxmin RAcentre DECcentre r")
     (simp add: archive_search_def ra_min_of_def ra_max_of_def)

text \<open>
  Claim C1, as amended. For a centre with RA in \<open>[0, 360)\<close>, Dec in \<open>[-90, 90]\<close> and a
  positive radius \<open>r\<close>, the returned bounds satisfy \<open>ra_min \<le> ra_max\<close> whenever the box is
  polar or the RA window \<open>[RA - w, RA + w]\<close> with \<open>w = r / costerm\<close> lies inside
  \<open>[0, 360]\<close>; and whenever the returned \<open>ra_min\<close> exceeds \<open>ra_max\<close>, the search step
  raises \<open>RuntimeError\<close> instead of building a single-range request.
\<close>

theorem ra_inversion_guard:
  assumes "0 \<le> RAcentre" "RAcentre < 360" "- 90 \<le> DECcentre" "DECcentre \<le> 90" "0 < r"
  shows "((DECcentre - r \<le> - 90 \<or> 90 \<le> DECcentre + r
           \<or> (r / costerm_of (DECcentre - r) (DECcentre + r) \<le> RAcentre
              \<and> RAcentre + r / costerm_of (DECcentre - r) (DECcentre + r) \<le> 360))
          \<longrightarrow> ra_min_of (get_radec_maxmin RAcentre DECcentre r)
                \<le> ra_max_of (get_radec_maxmin RAcentre DECcentre r))
       \<and> (ra_min_of (get_radec_maxmin RAcentre DECcentre r)
            > ra_max_of (get_radec_maxmin RAcentre DECcentre r)
          \<longrightarrow> archive_search caldat RAcentre DECcentre r
                = Inl (RuntimeError ''This needs to be fixed!!''))"
proof (intro conjI impI)
  assume h: "DECcentre - r \<le> - 90 \<or> 90 \<le> DECcentre + r
           \<or> (r / costerm_of (DECcentre - r) (DECcentre + r) \<le> RAcentre
              \<and> RAcentre + r / costerm_of (DECcentre - r) (DECcentre + r) \<le> 360)"
  show "ra_min_of (get_radec_maxmin RAcentre DECcentre r)
          \<le> ra_max_of (get_radec_maxmin RAcentre DECcentre r)"
  proof (cases "DECcentre - r \<le> - 90 \<or> 90 \<le> DECcentre + r")
    case True
    then show ?thesis
      by (simp add: polar_box ra_min_of_def ra_max_of_def)
  next
    case False
    then have np: "DECcentre - r > - 90" "DECcentre + r < 90" by simp_all
    define w where "w = r / costerm_of (DECcentre - r) (DECcentre + r)"
    from h False have win: "w \<le> RAcentre" "RAcentre + w \<le> 360"
      by (simp_all add: w_def)
    have "0 < costerm_of (DECcentre - r) (DECcentre + r)"
      using np assms(5) by (intro costerm_pos) simp_all
    with assms(5) have wpos: "0 < w" by (simp add: w_def)
    have "get_radec_maxmin RAcentre DECcentre r =
            (wrap_below (RAcentre - w), wrap_above (RAcentre + w), DECcentre - r, DECcentre + r)"
      using nonpolar_box [OF np] by (simp add: w_def)
    moreover have "wrap_below (RAcentre - w) = RAcentre - w"
      using win by (simp add: wrap_below_def)
    moreover have "wrap_above (RAcentre + w) = RAcentre + w"
      using win by (simp add: wrap_above_def)
    ultimately show ?thesis
      using wpos by (simp add: ra_min_of_def ra_max_of_def)
  qed
next
  assume "ra_max_of (get_radec_maxmin RAcentre DECcentre r)
            < ra_min_of (get_radec_maxmin RAcentre DECcentre r)"
  then show "archive_search caldat RAcentre DECcentre r = Inl (RuntimeError ''This needs to be fixed!!'')"
    by (rule archive_search_inverted)
qed

text \<open>
  Claim C1 as stated fails: the inversion is reached by a valid input. The centre
  \<open>(0.005, 0)\<close> with the default radius \<open>0.01\<close> gives a window that crosses RA 0, so
  \<open>ra_min\<close> is wrapped to about 359.995 while \<open>ra_max\<close> stays near 0.015.
\<close>

theorem ra_inversion_reachable:
  "(0::real) \<le> 1 / 200 \<and> (1 / 200 :: real) < 360 \<and> (- 90 :: real) \<le> 0 \<and> (0::real) \<le> 90
   \<and> (0::real) < 1 / 100
   \<and> ra_min_of (get_radec_maxmin (1 / 200) 0 (1 / 100))
       > ra_max_of (get_radec_maxmin (1 / 200) 0 (1 / 100))"
proof -
  define c where "c = costerm_of (- (1 / 100)) (1 / 100)"
  have cb: "1 / 2 \<le> c" "c \<le> 1"
    using costerm_small_bounds by (simp_all add: c_def)
  define w where "w = (1 / 100) / c"
  have wlo: "1 / 100 \<le> w"
    using cb by (simp add: w_def field_simps)
  have whi: "w \<le> 1 / 50"
    using cb by (simp add: w_def field_simps)
  have box: "get_radec_maxmin (1 / 200) 0 (1 / 100) =
          (wrap_below (1 / 200 - w), wrap_above (1 / 200 + w), 0 - 1 / 100, 0 + 1 / 100)"
    using nonpolar_box [of 0 "1 / 100" "1 / 200"] by (simp add: w_def c_def)
  have lo: "wrap_below (1 / 200 - w) = 1 / 200 - w + 360"
    using wlo by (simp add: wrap_below_def)
  have hi: "wrap_above (1 / 200 + w) = 1 / 200 + w"
    using whi by (simp add: wrap_above_def)
  show ?thesis
    using wlo whi by (simp add: box lo hi ra_min_of_def ra_max_of_def)
qed

text \<open>
  Claim C1, instances: the centre \<open>(180, 0)\<close> with radius 60 has its window inside
  \<open>[0, 360]\<close>; the centre \<open>(0, 0)\<close> with radius 60 is inverted and raises.
\<close>

theorem ra_inversion_guard_witness:
  "ra_min_of (get_radec_maxmin 180 0 60) \<le> ra_max_of (get_radec_maxmin 180 0 60)
   \<and> ra_min_of (get_radec_maxmin 0 0 60) > ra_max_of (get_radec_maxmin 0 0 60)
   \<and> archive_search ''2021-06-05'' 0 0 60 = Inl (RuntimeError ''This needs to be fixed!!'')"
proof -
  have a: "ra_min_of (get_radec_maxmin 180 0 60) \<le> ra_max_of (get_radec_maxmin 180 0 60)"
    using ra_inversion_guard [of 180 0 60 "''2021-06-05''"] by (simp add: costerm_60)
  have inv: "ra_min_of (get_radec_maxmin 0 0 60) > ra_max_of (get_radec_maxmin 0 0 60)"
    by (simp add: box_0_0_60 ra_min_of_def ra_max_of_def)
  have b: "archive_search ''2021-06-05'' 0 0 60 = Inl (RuntimeError ''This needs to be fixed!!'')"
    using ra_inversion_guard [of 0 0 60 "''2021-06-05''"] inv by simp
  from a inv b show ?thesis by simp
qed

text \<open>
  Claim C2, as amended. When \<open>DECcentre - r > -90\<close> and \<open>DECcentre + r < 90\<close>, the
  returned RA bounds are \<open>RAcentre - r / costerm\<close> and \<open>RAcentre + r / costerm\<close> with
  \<open>costerm\<close> the smaller cosine of the two Dec bounds, the first with 360 added when it
  is below 0 and the second with 360 subtracted when it is above 360; the Dec bounds are
  \<open>DECcentre - r\<close> and \<open>DECcentre + r\<close>. If moreover \<open>0 \<le> RAcentre < 360\<close>, \<open>r \<ge> 0\<close>
  and \<open>r / costerm \<le> 360\<close>, then \<open>ra_min\<close> lies in \<open>[0, 360)\<close> and \<open>ra_max\<close> in
  \<open>[0, 360]\<close>.
\<close>

theorem nonpolar_ra_bounds:
  assumes "DECcentre - r > - 90" "DECcentre + r < 90"
  shows "ra_min_of (get_radec_maxmin RAcentre DECcentre r)
           = (let x = RAcentre - r / costerm_of (DECcentre - r) (DECcentre + r)
              in if x < 0 then x + 360 else x)
       \<and> ra_max_of (get_radec_maxmin RAcentre DECcentre r)
           = (let y = RAcentre + r / costerm_of (DECcentre - r) (DECcentre + r)
              in if y > 360 then y - 360 else y)
       \<and> box_dec_min (get_radec_maxmin RAcentre DECcentre r) = DECcentre - r
       \<and> box_dec_max (get_radec_maxmin RAcentre DECcentre r) = DECcentre + r
       \<and> (0 \<le> RAcentre \<and> RAcentre < 360 \<and> 0 \<le> r
            \<and> r / costerm_of (DECcentre - r) (DECcentre + r) \<le> 360
          \<longrightarrow> 0 \<le> ra_min_of (get_radec_maxmin RAcentre DECcentre r)
              \<and> ra_min_of (get_radec_maxmin RAcentre DECcentre r) < 360
              \<and> 0 \<le> ra_max_of (get_radec_maxmin RAcentre DECcentre r)
              \<and> ra_max_of (get_radec_maxmin RAcentre DECcentre r) \<le> 360)"
proof -
  define w where "w = r / costerm_of (DECcentre - r) (DECcentre + r)"
  have box: "get_radec_maxmin RAcentre DECcentre r =
               (wrap_below (RAcentre - w), wrap_above (RAcentre + w), DECcentre - r, DECcentre + r)"
    using nonpolar_box [OF assms] by (simp add: w_def)
  have rng: "0 \<le> wrap_below (RAcentre - w) \<and> wrap_below (RAcentre - w) < 360
           \<and> 0 \<le> wrap_above (RAcentre + w) \<and> wrap_above (RAcentre + w) \<le> 360"
    if "0 \<le> RAcentre" "RAcentre < 360" "0 \<le> r" "w \<le> 360"
  proof -
    have "0 < costerm_of (DECcentre - r) (DECcentre + r)"
      using assms that(3) by (intro costerm_pos) simp_all
    with that(3) have "0 \<le> w" by (simp add: w_def)
    with that show ?thesis by (simp add: wrap_below_def wrap_above_def)
  qed
  show ?thesis
    unfolding box ra_min_of_def ra_max_of_def box_dec_min_def box_dec_max_def
    using rng by (simp add: w_def wrap_below_def wrap_above_def Let_def)
qed

text \<open>Claim C2, instance: the centre \<open>(300, 0)\<close> with radius 60, where \<open>costerm = 1/2\<close>.\<close>

theorem nonpolar_ra_bounds_witness:
  "(0::real) - 60 > - 90 \<and> (0::real) + 60 < 90
   \<and> ra_min_of (get_radec_maxmin 300 0 60) = 180
   \<and> ra_max_of (get_radec_maxmin 300 0 60) = 60
   \<and> (0::real) \<le> 300 \<and> (300::real) < 360 \<and> (0::real) \<le> 60 \<and> 60 / costerm_of (- 60) 60 \<le> 360
   \<and> 0 \<le> ra_min_of (get_radec_maxmin 300 0 60) \<and> ra_min_of (get_radec_maxmin 300 0 60) < 360
   \<and> 0 \<le> ra_max_of (get_radec_maxmin 300 0 60) \<and> ra_max_of (get_radec_maxmin 300 0 60) \<le> 360"
  using nonpolar_ra_bounds [of 0 60 300] by (simp add: costerm_60)

text \<open>
  Claim C2 as stated fails: each bound is wrapped once only. For the centre \<open>(180, 0)\<close>
  and radius 89 the half-width \<open>89 / cos (89 degrees)\<close> exceeds 4005 degrees, so after one
  wrap \<open>ra_min\<close> is still negative and \<open>ra_max\<close> is still above 360.
\<close>

theorem ra_bounds_outside_range:
  "(0::real) - 89 > - 90 \<and> (0::real) + 89 < 90
   \<and> ra_min_of (get_radec_maxmin 180 0 89) < 0
   \<and> ra_max_of (get_radec_maxmin 180 0 89) > 360"
proof -
  define c where "c = costerm_of (- 89) 89"
  have cb: "0 < c" "c < 1 / 45"
    using costerm_89_bounds by (simp_all add: c_def)
  define w where "w = 89 / c"
  have "89 * 45 < w"
    using cb by (simp add: w_def field_simps)
  then have wlo: "4005 < w" by simp
  have box: "get_radec_maxmin 180 0 89 =
          (wrap_below (180 - w), wrap_above (180 + w), 0 - 89, 0 + 89)"
    using nonpolar_box [of 0 89 180] by (simp add: w_def c_def)
  have lo: "wrap_below (180 - w) = 180 - w + 360"
    using wlo by (simp add: wrap_below_def)
  have hi: "wrap_above (180 + w) = 180 + w - 360"
    using wlo by (simp add: wrap_above_def)
  show ?thesis
    using wlo by (simp add: box lo hi ra_min_of_def ra_max_of_def)
qed

text \<open>
  Claim C4, as amended. For a centre Dec in \<open>[-90, 90]\<close> and a radius \<open>r \<ge> 0\<close>, the
  returned Dec bounds are \<open>DECcentre - r\<close> and \<open>DECcentre + r\<close> clamped to \<open>[-90, 90]\<close>;
  for a centre Dec in \<open>[-90 + r, 90 - r]\<close> they are \<open>DECcentre - r\<close> and \<open>DECcentre + r\<close>
  themselves and lie in \<open>[-90, 90]\<close>.
\<close>

theorem dec_bounds_clamped:
  assumes "- 90 \<le> DECcentre" "DECcentre \<le> 90" "0 \<le> r"
  shows "box_dec_min (get_radec_maxmin RAcentre DECcentre r) = clamp90 (DECcentre - r)
       \<and> box_dec_max (get_radec_maxmin RAcentre DECcentre r) = clamp90 (DECcentre + r)
       \<and> (- 90 + r \<le> DECcentre \<and> DECcentre \<le> 90 - r
          \<longrightarrow> box_dec_min (get_radec_maxmin RAcentre DECcentre r) = DECcentre - r
              \<and> box_dec_max (get_radec_maxmin RAcentre DECcentre r) = DECcentre + r
              \<and> - 90 \<le> DECcentre - r \<and> DECcentre + r \<le> 90)"
  using assms
  by (auto simp: box_dec_min_eq box_dec_max_eq dec_min_of_def dec_max_of_def clamp90_def Let_def)

text \<open>Claim C4, instance: centre Dec 30 with radius 0.01.\<close>

theorem dec_bounds_clamped_witness:
  "(- 90 :: real) \<le> 30 \<and> (30::real) \<le> 90 \<and> (0::real) \<le> 1 / 100
   \<and> (- 90 :: real) + 1 / 100 \<le> 30 \<and> (30::real) \<le> 90 - 1 / 100
   \<and> box_dec_min (get_radec_maxmin 10 30 (1 / 100)) = 30 - 1 / 100
   \<and> box_dec_max (get_radec_maxmin 10 30 (1 / 100)) = 30 + 1 / 100
   \<and> box_dec_min (get_radec_maxmin 10 30 (1 / 100)) = clamp90 (30 - 1 / 100)
   \<and> box_dec_max (get_radec_maxmin 10 30 (1 / 100)) = clamp90 (30 + 1 / 100)"
  using dec_bounds_clamped [of 30 "1 / 100" 10] by (simp add: clamp90_def Let_def)

text \<open>
  Claim C4 as stated fails for a centre Dec outside \<open>[-90, 90]\<close>: the lower bound is
  clamped from below only. With \<open>DECcentre = 100\<close> and \<open>r = 5\<close> it is 95.
\<close>

theorem dec_min_not_clamped_above:
  "(0::real) \<le> 5
   \<and> box_dec_min (get_radec_maxmin 0 100 5) = 95
   \<and> clamp90 (100 - 5) = 90
   \<and> box_dec_min (get_radec_maxmin 0 100 5) \<noteq> clamp90 (100 - 5)"
  by (simp add: box_dec_min_eq dec_min_of_def clamp90_def Let_def)

section \<open>Properties of the catalogue clients and the photometric driver\<close>


lemma rename_column_missing:
  assumes "name \<notin> set (colnames t)"
  shows "rename_column t name new_name = Inl (KeyError name)"
  using assms by (simp add: rename_column_def)









text \<open>
  Claim C7, at the input where it fails: when the service answers with an empty
  \<open>TableList\<close>, \<open>query_gaia_astrom\<close> raises \<open>KeyError\<close> instead of returning \<open>None\<close>,
  whereas \<open>PhotoCatalog.query\<close> returns \<open>None\<close> on the same answer.
\<close>

theorem gaia_query_empty_tablelist:
  "query_gaia_astrom (GaiaAstrometry_init (10, 20) 18) [] = Inl (KeyError ''I/345/gaia2'')
   \<and> PhotoCatalog_query
         \<lparr>field_ra = 10, field_dec = 20, boxsize = 18, catalog = ''Gaia'',
          filter_band = ''g'', catID = Some ''I/345/gaia2''\<rparr> [] = Inr None"
  by (simp add: query_gaia_astrom_def GaiaAstrometry_init_def PhotoCatalog_query_def
      columns_select_def)

lemma query_with_retry_calls:
  assumes "query_with_retry cat a b = Inr (res, n)"
  shows "(n = 1 \<and> PhotoCatalog_query cat a = Inr res \<and> res \<noteq> None)
       \<or> (n = 2 \<and> PhotoCatalog_query cat a = Inr None \<and> PhotoCatalog_query cat b = Inr res)"
  using assms by (auto simp: query_with_retry_def split: sum.splits option.splits)

lemma query_with_retry_twice_none:
  assumes "PhotoCatalog_query cat a = Inr None" "PhotoCatalog_query cat b = Inr None"
  shows "query_with_retry cat a b = Inr (None, 2)"
  using assms by (simp add: query_with_retry_def)


lemma query_after_unrecognised_name:
  assumes "catID self = None"
  shows "PhotoCatalog_query self t_result = Inl (AttributeError ''catID'')"
  using assms by (simp add: PhotoCatalog_query_def)



lemma map_fst_filter_fst:
  "map fst (filter (\<lambda>p. Q (fst p)) zs) = filter Q (map fst zs)"
  by (induction zs) simp_all

lemma remove_rows_nan_index:
  "remove_rows xs (nan_index (map f xs)) = filter (\<lambda>x. \<not> isnan (f x)) xs"
proof -
  have "filter (\<lambda>p. snd p \<notin> set (nan_index (map f xs))) (zip xs [0..<length xs])
      = filter (\<lambda>p. \<not> isnan (f (fst p))) (zip xs [0..<length xs])"
    by (rule filter_cong) (auto simp: nan_index_def set_zip)
  then have "remove_rows xs (nan_index (map f xs))
      = map fst (filter (\<lambda>p. \<not> isnan (f (fst p))) (zip xs [0..<length xs]))"
    by (simp add: remove_rows_def)
  also have "\<dots> = filter (\<lambda>x. \<not> isnan (f x)) (map fst (zip xs [0..<length xs]))"
    by (rule map_fst_filter_fst)
  also have "\<dots> = filter (\<lambda>x. \<not> isnan (f x)) xs"
    by simp
  finally show ?thesis .
qed

lemma select_rows_map: "select_rows xs (map P xs) = filter P xs"
  by (induction xs) (simp_all add: select_rows_def)

lemma write_rows_ok:
  assumes "''ra'' \<in> set cols" "''dec'' \<in> set cols" "''mag'' \<in> set cols" "''e_mag'' \<in> set cols"
  shows "write_rows cols ls = Inr (map (\<lambda>l. Data (l ''ra'') (l ''dec'') (l ''mag'') (l ''e_mag'')) ls)"
  using assms by (induction ls) (simp_all add: write_row_def)

lemma kept_rows:
  "filter (\<lambda>l. fl_less (f l) 30) (filter (\<lambda>l. \<not> isnan (f l)) ls)
     = filter (\<lambda>l. \<not> isnan (f l) \<and> \<not> fl_ge (f l) 30) ls"
proof -
  have "(\<not> isnan v \<and> fl_less v 30) = (\<not> isnan v \<and> \<not> fl_ge v 30)" for v
    by (cases v) (auto simp: isnan_def fl_less_def fl_ge_def)
  then have "(\<lambda>l. \<not> isnan (f l) \<and> fl_less (f l) 30) = (\<lambda>l. \<not> isnan (f l) \<and> \<not> fl_ge (f l) 30)"
    by (intro ext)
  then show ?thesis by simp
qed

text \<open>
  Claim C8. On a table with the columns \<open>ra\<close>, \<open>dec\<close>, \<open>mag\<close> and \<open>e_mag\<close>, the step
  raises nothing and writes the header followed by one line per row whose magnitude is
  neither not-a-number nor at least 30, in the order of the input rows.
\<close>

theorem magnitude_filter_written:
  assumes "''ra'' \<in> set (colnames t_cat)" "''dec'' \<in> set (colnames t_cat)"
          "''mag'' \<in> set (colnames t_cat)" "''e_mag'' \<in> set (colnames t_cat)"
  shows "map_sum id fst (filter_and_write t_cat fil bright_thresh) =
           Inr (Header (take 1 fil) #
                map (\<lambda>l. Data (l ''ra'') (l ''dec'') (l ''mag'') (l ''e_mag''))
                    (filter (\<lambda>l. \<not> isnan (l ''mag'') \<and> \<not> fl_ge (l ''mag'') 30) (rows t_cat)))"
proof -
  let ?kept = "filter (\<lambda>l. \<not> isnan (l ''mag'') \<and> \<not> fl_ge (l ''mag'') 30) (rows t_cat)"
  have sel: "select_rows (remove_rows (rows t_cat) (nan_index (map (\<lambda>l. l ''mag'') (rows t_cat))))
               (map (\<lambda>l. fl_less (l ''mag'') 30)
                  (remove_rows (rows t_cat) (nan_index (map (\<lambda>l. l ''mag'') (rows t_cat))))) = ?kept"
    unfolding select_rows_map remove_rows_nan_index by (rule kept_rows)
  have wr: "write_file \<lparr>colnames = colnames t_cat, rows = ?kept\<rparr> filt
          = Inr (Header (take 1 filt) # map (\<lambda>l. Data (l ''ra'') (l ''dec'') (l ''mag'') (l ''e_mag'')) ?kept)"
    for filt using assms by (simp add: write_file_def write_rows_ok)
  show ?thesis
    using assms(3) by (simp add: filter_and_write_def Let_def sel wr)
qed

text \<open>Claim C8, instance: four rows with magnitudes 18, not-a-number, 30 and 12.\<close>

theorem magnitude_filter_written_witness:
  "''ra'' \<in> set (colnames \<lparr>colnames = [''objID'', ''ra'', ''dec'', ''mag'', ''e_mag''],
      rows = [row_of 1 2 (Fin 18) (1 / 10), row_of 3 4 NaN (2 / 10),
              row_of 5 6 (Fin 30) (3 / 10), row_of 7 8 (Fin 12) (4 / 10)]\<rparr>)
   \<and> map_sum id fst (filter_and_write
     \<lparr>colnames = [''objID'', ''ra'', ''dec'', ''mag'', ''e_mag''],
      rows = [row_of 1 2 (Fin 18) (1 / 10), row_of 3 4 NaN (2 / 10),
              row_of 5 6 (Fin 30) (3 / 10), row_of 7 8 (Fin 12) (4 / 10)]\<rparr>
     ''g'' 5)
   = Inr [Header ''g'', Data (Fin 1) (Fin 2) (Fin 18) (Fin (1 / 10)),
          Data (Fin 7) (Fin 8) (Fin 12) (Fin (4 / 10))]"
  using magnitude_filter_written [of "\<lparr>colnames = [''objID'', ''ra'', ''dec'', ''mag'', ''e_mag''],
      rows = [row_of 1 2 (Fin 18) (1 / 10), row_of 3 4 NaN (2 / 10),
              row_of 5 6 (Fin 30) (3 / 10), row_of 7 8 (Fin 12) (4 / 10)]\<rparr>" "''g''" 5]
  by (simp add: row_of_def isnan_def fl_ge_def)

section \<open>Properties of the download and of the target loops\<close>

text \<open>
  Claim C6, at the input where it fails: the token request is answered with status 401
  and a \<open>detail\<close> message. No file request is made, but the exception raised is
  \<open>UnboundLocalError\<close> for the variable \<open>token\<close> (or \<open>TypeError\<close> when an earlier file
  of the run left a token string in it), not the authorization failure with the
  server's message.
\<close>

theorem token_failure_unbound_variable:
  "download_file codes None
     \<lparr>status_code = 401, json_body = JObject [(''detail'', JString ''Invalid credentials'')],
      content = []\<rparr> r2 out_path
   = ([PostToken], None, Some (UnboundLocalError ''token''))
   \<and> UnboundLocalError ''token'' \<noteq> Exception ''Could got get authorization: Invalid credentials''
   \<and> download_file codes (Some (JString tok))
     \<lparr>status_code = 401, json_body = JObject [(''detail'', JString ''Invalid credentials'')],
      content = []\<rparr> r2 out_path
   = ([PostToken], Some (JString tok), Some (TypeError ''string indices must be integers''))"
  by (simp add: download_file_def authorization_error_def subscript_def)

lemma token_failure_no_get:
  assumes "status_code r \<noteq> 200"
  shows "fst (download_file codes token r r2 out_path) = [PostToken]"
    and "snd (snd (download_file codes token r r2 out_path)) \<noteq> None"
  using assms by (simp_all add: download_file_def)

lemma file_failure_no_write:
  assumes "status_code r = 200" "status_code r2 \<noteq> 200"
          "codes (status_code r2) = Some name"
          "json_body r2 = JObject members" "map_of members ''message'' = Some (JString m)"
  shows "download_file codes token r r2 out_path
         = ([PostToken, GetFile (json_body r)], Some (json_body r),
            Some (Exception (''Error getting file ('' @ name @ ''). '' @ m)))"
  using assms by (simp add: download_file_def file_error_def subscript_def py_str_def Let_def)

lemma first_occurrences_set: "set (first_occurrences xs) = set xs"
  by (induction xs) auto

lemma first_occurrences_distinct: "distinct (first_occurrences xs)"
  by (induction xs) (simp_all)

lemma run_targets_skip:
  assumes "objectName t \<in> set done_names"
  shows "run_targets query outfile (t # ts) done_names = run_targets query outfile ts done_names"
  using assms by simp

lemma run_targets_raise:
  assumes "objectName t \<notin> set done_names" "query t = Some e"
  shows "run_targets query outfile (t # ts) done_names = ([], Some e)"
  using assms by simp

lemma run_targets_fresh:
  assumes "objectName t \<notin> set done_names" "query t = None"
  shows "run_targets query outfile (t # ts) done_names
         = ((objectName t, outfile (objectName t))
              # fst (run_targets query outfile ts (done_names @ [objectName t])),
            snd (run_targets query outfile ts (done_names @ [objectName t])))"
  using assms by (simp split: prod.splits)

lemma run_targets_snd:
  "map snd (fst (run_targets query outfile ts done_names))
     = map outfile (map fst (fst (run_targets query outfile ts done_names)))"
proof (induction ts arbitrary: done_names)
  case Nil
  then show ?case by simp
next
  case (Cons t ts)
  show ?case
  proof (cases "objectName t \<in> set done_names")
    case True
    then show ?thesis using Cons.IH [of done_names] by (simp only: run_targets_skip)
  next
    case False
    show ?thesis
    proof (cases "query t")
      case None
      with False show ?thesis
        using Cons.IH [of "done_names @ [objectName t]"] by (simp add: run_targets_fresh del: run_targets.simps)
    next
      case (Some e)
      with False show ?thesis by (simp add: run_targets_raise del: run_targets.simps)
    qed
  qed
qed

lemma filter_done_skip:
  assumes "x \<in> set done_names"
  shows "filter (\<lambda>n. n \<noteq> x \<and> n \<notin> set done_names) zs
       = filter (\<lambda>n. n \<notin> set done_names) zs"
  using assms by (induction zs) auto

lemma filter_done_fresh:
  "filter (\<lambda>n. n \<notin> set done_names) (filter (\<lambda>y. y \<noteq> x) zs)
     = filter (\<lambda>n. n \<notin> set (done_names @ [x])) zs"
  by (induction zs) auto

lemma run_targets_prefix:
  "prefix (map fst (fst (run_targets query outfile ts done_names)))
          (filter (\<lambda>n. n \<notin> set done_names) (first_occurrences (map objectName ts)))"
proof (induction ts arbitrary: done_names)
  case Nil
  then show ?case by simp
next
  case (Cons t ts)
  show ?case
  proof (cases "objectName t \<in> set done_names")
    case True
    then show ?thesis
      using Cons.IH [of done_names]
      by (simp add: run_targets_skip filter_done_skip del: run_targets.simps)
  next
    case False
    show ?thesis
    proof (cases "query t")
      case None
      with False show ?thesis
        using Cons.IH [of "done_names @ [objectName t]"]
        by (simp add: run_targets_fresh filter_done_fresh del: run_targets.simps)
    next
      case (Some e)
      with False show ?thesis by (simp add: run_targets_raise del: run_targets.simps)
    qed
  qed
qed

lemma run_targets_all:
  assumes "\<forall>t \<in> set ts. query t = None"
  shows "map fst (fst (run_targets query outfile ts done_names))
          = filter (\<lambda>n. n \<notin> set done_names) (first_occurrences (map objectName ts))
       \<and> snd (run_targets query outfile ts done_names) = None"
  using assms
proof (induction ts arbitrary: done_names)
  case Nil
  then show ?case by simp
next
  case (Cons t ts)
  from Cons.prems have q: "query t = None" and rest: "\<forall>t \<in> set ts. query t = None"
    by simp_all
  show ?case
  proof (cases "objectName t \<in> set done_names")
    case True
    then show ?thesis
      using Cons.IH [OF rest, of done_names]
      by (simp add: run_targets_skip filter_done_skip del: run_targets.simps)
  next
    case False
    with q show ?thesis
      using Cons.IH [OF rest, of "done_names @ [objectName t]"]
      by (simp add: run_targets_fresh filter_done_fresh del: run_targets.simps)
  qed
qed

lemma prefix_distinct: "prefix xs ys \<Longrightarrow> distinct ys \<Longrightarrow> distinct xs"
  by (auto simp: prefix_def)

lemma run_targets_distinct:
  assumes "inj outfile"
  shows "distinct (map fst (fst (run_targets query outfile ts [])))"
    and "distinct (map snd (fst (run_targets query outfile ts [])))"
proof -
  have p: "prefix (map fst (fst (run_targets query outfile ts [])))
                  (first_occurrences (map objectName ts))"
    using run_targets_prefix [of query outfile ts "[]"] by simp
  then show d: "distinct (map fst (fst (run_targets query outfile ts [])))"
    by (rule prefix_distinct) (rule first_occurrences_distinct)
  show "distinct (map snd (fst (run_targets query outfile ts [])))"
    unfolding run_targets_snd using d assms
    by (simp add: distinct_map inj_on_def inj_def)
qed

lemma inj_ls_outfile: "inj ls_outfile"
  by (simp add: inj_def ls_outfile_def)

lemma inj_milliquas_outfile: "inj milliquas_outfile"
  by (simp add: inj_def milliquas_outfile_def)

text \<open>
  Claim C10. In both scripts the object names queried are pairwise distinct, and so
  are the files written; they are an initial part of the first occurrences of the
  object names of the list, and all of them when no query raises. A row whose name
  occurred earlier is therefore skipped.
\<close>

theorem each_object_queried_once:
  "distinct (map fst (fst (ls_main query ts)))
   \<and> distinct (map snd (fst (ls_main query ts)))
   \<and> prefix (map fst (fst (ls_main query ts))) (first_occurrences (map objectName ts))
   \<and> distinct (map fst (fst (milliquas_main query ts)))
   \<and> distinct (map snd (fst (milliquas_main query ts)))
   \<and> prefix (map fst (fst (milliquas_main query ts))) (first_occurrences (map objectName ts))
   \<and> ((\<forall>t \<in> set ts. query t = None) \<longrightarrow>
        map fst (fst (ls_main query ts)) = first_occurrences (map objectName ts)
      \<and> map fst (fst (milliquas_main query ts)) = first_occurrences (map objectName ts))"
proof -
  have p: "prefix (map fst (fst (run_targets query outfile ts [])))
                  (first_occurrences (map objectName ts))" for outfile
    using run_targets_prefix [of query outfile ts "[]"] by simp
  have a: "(\<forall>t \<in> set ts. query t = None) \<Longrightarrow>
        map fst (fst (run_targets query outfile ts [])) = first_occurrences (map objectName ts)" for outfile
    using run_targets_all [of ts query outfile "[]"] by simp
  show ?thesis
    unfolding ls_main_def milliquas_main_def
    using p a run_targets_distinct [OF inj_ls_outfile] run_targets_distinct [OF inj_milliquas_outfile]
    by blast
qed

text \<open>Claim C10, instance: the target list \<open>A, B, A\<close>.\<close>

theorem each_object_queried_once_witness:
  "map fst (fst (ls_main (\<lambda>t. None)
        [\<lparr>objectName = ''A'', target_ra = 1, target_dec = 2\<rparr>,
         \<lparr>objectName = ''B'', target_ra = 3, target_dec = 4\<rparr>,
         \<lparr>objectName = ''A'', target_ra = 1, target_dec = 2\<rparr>])) = [''A'', ''B'']
   \<and> map fst (fst (milliquas_main (\<lambda>t. None)
        [\<lparr>objectName = ''A'', target_ra = 1, target_dec = 2\<rparr>,
         \<lparr>objectName = ''B'', target_ra = 3, target_dec = 4\<rparr>,
         \<lparr>objectName = ''A'', target_ra = 1, target_dec = 2\<rparr>])) = [''A'', ''B'']"
  using each_object_queried_once [of "\<lambda>t. None"
        "[\<lparr>objectName = ''A'', target_ra = 1, target_dec = 2\<rparr>,
          \<lparr>objectName = ''B'', target_ra = 3, target_dec = 4\<rparr>,
          \<lparr>objectName = ''A'', target_ra = 1, target_dec = 2\<rparr>]"]
  by simp

end
